theory Spec2Isabelle
  imports Complex_Main "HOL-Library.AList"
begin

section \<open>Text: characters, trimming, case\<close>

text \<open>
  JavaScript strings are modelled as \<^typ>\<open>string\<close>: a list of 8-bit characters read as
  the code units U+0000 .. U+00FF. \<open>length\<close> is the \<open>.length\<close> of the source.
\<close>

definition is_word_char :: "char \<Rightarrow> bool" where
  \<comment> \<open>the class \<open>\w\<close> of a regular expression without the \<open>u\<close> flag: \<open>[A-Za-z0-9_]\<close>\<close>
  "is_word_char c =
     (let n = (of_char c :: nat)
      in (48 \<le> n \<and> n \<le> 57) \<or> (65 \<le> n \<and> n \<le> 90) \<or> n = 95 \<or> (97 \<le> n \<and> n \<le> 122))"

definition is_line_terminator :: "char \<Rightarrow> bool" where
  \<comment> \<open>the characters that \<open>.\<close> does not match: LF and CR (U+2028 and U+2029 are out of range)\<close>
  "is_line_terminator c = (let n = (of_char c :: nat) in n = 10 \<or> n = 13)"

definition is_white_space :: "char \<Rightarrow> bool" where
  \<comment> \<open>what \<open>String.prototype.trim\<close> strips: TAB, LF, VT, FF, CR, SP, NBSP\<close>
  "is_white_space c = (let n = (of_char c :: nat) in (9 \<le> n \<and> n \<le> 13) \<or> n = 32 \<or> n = 160)"

definition trim :: "string \<Rightarrow> string" where
  "trim s = rev (dropWhile is_white_space (rev (dropWhile is_white_space s)))"

definition is_upper_case :: "char \<Rightarrow> bool" where
  \<comment> \<open>\<open>A\<close>..\<open>Z\<close> and the capital letters of Latin-1 (U+00C0 .. U+00DE without U+00D7)\<close>
  "is_upper_case c =
     (let n = (of_char c :: nat)
      in (65 \<le> n \<and> n \<le> 90) \<or> (192 \<le> n \<and> n \<le> 222 \<and> n \<noteq> 215))"

definition is_lower_case :: "char \<Rightarrow> bool" where
  \<comment> \<open>the letters whose upper case is again a single code unit below U+0100\<close>
  "is_lower_case c =
     (let n = (of_char c :: nat)
      in (97 \<le> n \<and> n \<le> 122) \<or> (224 \<le> n \<and> n \<le> 254 \<and> n \<noteq> 247))"

fun set_bit5 :: "bool \<Rightarrow> char \<Rightarrow> char" where
  \<comment> \<open>upper and lower case of these letters differ by 32, the bit of weight \<open>2 ^ 5\<close>\<close>
  "set_bit5 b (Char b0 b1 b2 b3 b4 b5 b6 b7) = Char b0 b1 b2 b3 b4 b b6 b7"

definition lower_char :: "char \<Rightarrow> char" where
  "lower_char c = (if is_upper_case c then set_bit5 True c else c)"

definition upper_char :: "char \<Rightarrow> char" where
  "upper_char c = (if is_lower_case c then set_bit5 False c else c)"

definition toLowerCase :: "string \<Rightarrow> string" where
  "toLowerCase s = map lower_char s"

section \<open>Regular expressions of the sources\<close>

text \<open>
  The regular expressions that occur in the sources are sequences of: literal text, the
  assertion \<open>\b\<close>, \<open>.*\<close>, the class \<open>[*\w]\<close>, and a group of literal alternatives
  \<open>(a|b|c)\<close>. A pattern \<open>a|b|c\<close> without parentheses is the group alone.
\<close>

datatype atom =
    Lit string
  | WordBoundary
  | AnyStar
  | StarOrWord
  | Group "string list"

definition char_eq :: "bool \<Rightarrow> char \<Rightarrow> char \<Rightarrow> bool" where
  \<comment> \<open>under the flag \<open>i\<close> both characters are canonicalized with their upper case\<close>
  "char_eq ignoreCase a b = (if ignoreCase then upper_char a = upper_char b else a = b)"

definition is_word_opt :: "char option \<Rightarrow> bool" where
  "is_word_opt p = (case p of None \<Rightarrow> False | Some c \<Rightarrow> is_word_char c)"

definition at_boundary :: "char option \<Rightarrow> string \<Rightarrow> bool" where
  \<comment> \<open>\<open>\b\<close>: exactly one of the characters before and after the position is a word character\<close>
  "at_boundary p s = (is_word_opt p \<noteq> is_word_opt (case s of [] \<Rightarrow> None | x # _ \<Rightarrow> Some x))"

text \<open>
  \<open>lit_match i w p s\<close>: the literal \<open>w\<close> is a prefix of \<open>s\<close>; the result is the rest of
  \<open>s\<close> with the character before it.
\<close>

fun lit_match :: "bool \<Rightarrow> string \<Rightarrow> char option \<Rightarrow> string \<Rightarrow> (char option \<times> string) option" where
  "lit_match i [] p s = Some (p, s)"
| "lit_match i (c # cs) p [] = None"
| "lit_match i (c # cs) p (x # xs) = (if char_eq i c x then lit_match i cs (Some x) xs else None)"

text \<open>
  \<open>matches_here i r p s\<close>: the pattern \<open>r\<close> matches a prefix of \<open>s\<close>, where \<open>p\<close> is the
  character before \<open>s\<close> in the subject (\<open>None\<close> at its start).
\<close>

fun matches_here :: "bool \<Rightarrow> atom list \<Rightarrow> char option \<Rightarrow> string \<Rightarrow> bool" where
  "matches_here i [] p s = True"
| "matches_here i (Lit w # r) p s =
     (case lit_match i w p s of None \<Rightarrow> False | Some (p', s') \<Rightarrow> matches_here i r p' s')"
| "matches_here i (WordBoundary # r) p s = (at_boundary p s \<and> matches_here i r p s)"
| "matches_here i (AnyStar # r) p [] = matches_here i r p []"
| "matches_here i (AnyStar # r) p (x # xs) =
     (matches_here i r p (x # xs) \<or>
      (\<not> is_line_terminator x \<and> matches_here i (AnyStar # r) (Some x) xs))"
| "matches_here i (StarOrWord # r) p [] = False"
| "matches_here i (StarOrWord # r) p (x # xs) =
     ((x = CHR ''*'' \<or> is_word_char x) \<and> matches_here i r (Some x) xs)"
| "matches_here i (Group ws # r) p s =
     list_ex (\<lambda>w. case lit_match i w p s of None \<Rightarrow> False | Some (p', s') \<Rightarrow> matches_here i r p' s') ws"

fun search :: "bool \<Rightarrow> atom list \<Rightarrow> char option \<Rightarrow> string \<Rightarrow> bool" where
  "search i r p [] = matches_here i r p []"
| "search i r p (x # xs) = (matches_here i r p (x # xs) \<or> search i r (Some x) xs)"

definition test :: "bool \<Rightarrow> atom list \<Rightarrow> string \<Rightarrow> bool" where
  \<comment> \<open>\<open>/r/.test(s)\<close> (first argument \<open>False\<close>) and \<open>/r/i.test(s)\<close> (\<open>True\<close>)\<close>
  "test i r s = search i r None s"

definition word_regex :: "string \<Rightarrow> atom list" where
  \<comment> \<open>\<open>new RegExp(`\\b${word}\\b`, 'gi')\<close>\<close>
  "word_regex w = [WordBoundary, Lit w, WordBoundary]"

text \<open>
  \<open>text.replace(new RegExp(`\\b${word}\\b`, 'gi'), replacement)\<close>: the subject is scanned
  from the left; a match is replaced and the scan goes on behind it. A match of
  \<open>word_regex w\<close> has the length of \<open>w\<close>; the words of the table are not empty.
\<close>

fun replace_word :: "string \<Rightarrow> string \<Rightarrow> char option \<Rightarrow> string \<Rightarrow> string" where
  "replace_word w r p [] = []"
| "replace_word w r p (x # xs) =
     (if matches_here True (word_regex w) p (x # xs)
      then r @ replace_word w r (Some (last (x # take (length w - 1) xs))) (drop (length w - 1) xs)
      else x # replace_word w r (Some x) xs)"

section \<open>utils/ai-service.js\<close>

record local_result =
  isHarmful :: bool
  category :: string
  confidence :: real
  explanation :: string

definition patterns :: "(string \<times> atom list list) list" where
  "patterns =
    [(''harmful'',
       [[Lit ''how to '', Group [''make'', ''create'', ''build''], Lit '' '',
           Group [''bomb'', ''explosive'', ''weapon'']],
        [Lit ''suicide method''],
        [Lit ''kidnap''],
        [WordBoundary, Lit ''kill'', WordBoundary, AnyStar, WordBoundary, Lit ''people'', WordBoundary]]),
     (''offensive'',
       [[WordBoundary, Lit ''f'', StarOrWord, Lit ''ck'', WordBoundary],
        [WordBoundary, Lit ''s'', StarOrWord, Lit ''it'', WordBoundary],
        [WordBoundary, Lit ''a'', StarOrWord, Lit ''s'', WordBoundary],
        [WordBoundary, Lit ''b'', StarOrWord, Lit ''tch'', WordBoundary],
        [WordBoundary, Lit ''n'', StarOrWord, Lit ''gg'', StarOrWord, Lit ''r'', WordBoundary],
        [WordBoundary, Lit ''c'', StarOrWord, Lit ''nt'', WordBoundary]]),
     (''inappropriate'',
       [[Lit ''porn''], [Lit ''nude''], [Lit ''sex''], [Lit ''genital'']])]"

definition calculateLocalToxicityScore :: "string \<Rightarrow> local_result" where
  "calculateLocalToxicityScore text =
     (let lowerText = toLowerCase text
      in case find (\<lambda>(cat, regexList). list_ex (\<lambda>regex. test True regex lowerText) regexList)
                   patterns of
           Some (cat, regexList) \<Rightarrow>
             \<lparr>isHarmful = True, category = cat, confidence = 0.7,
              explanation = ''This content may contain '' @ cat @ '' material (detected locally)''\<rparr>
         | None \<Rightarrow>
             \<lparr>isHarmful = False, category = ''safe'', confidence = 0.6,
              explanation = ''This content appears to be safe (analyzed locally)''\<rparr>)"

definition replacements :: "(string \<times> string) list" where
  "replacements =
    [(''fuck'', ''****''), (''shit'', ''****''), (''bitch'', ''*****''), (''ass'', ''***''),
     (''kill'', ''harm''), (''bomb'', ''device''), (''weapon'', ''tool''),
     (''porn'', ''content''), (''nude'', ''unclothed''), (''sex'', ''intimacy'')]"

definition safety_notice :: string where
  "safety_notice = ''[This content has been modified for safety reasons]''"

definition apply_replacements :: "string \<Rightarrow> string" where
  \<comment> \<open>the loop over \<open>Object.entries(replacements)\<close>, in the order of the table\<close>
  "apply_replacements text =
     foldl (\<lambda>rephrased (word, replacement). replace_word word replacement None rephrased)
           text replacements"

definition localRephrase :: "string \<Rightarrow> string \<Rightarrow> string" where
  "localRephrase text cat =
     (let rephrased = apply_replacements text
      in if cat = ''harmful'' then safety_notice else rephrased)"

section \<open>Background script: the two remote calls\<close>

record analysis_result = local_result +
  result_text :: string  \<comment> \<open>the field \<open>text\<close>\<close>

record rephrase_result =
  original :: string
  rephrased :: string




definition local_analysis :: "string \<Rightarrow> analysis_result" where
  "local_analysis txt =
     (let localResult = calculateLocalToxicityScore txt
      in \<lparr>isHarmful = isHarmful localResult, category = category localResult,
          confidence = confidence localResult, explanation = explanation localResult,
          result_text = txt\<rparr>)"




text \<open>
  What the callback of \<open>chrome.runtime.sendMessage\<close> receives: nothing (\<open>undefined\<close>), an
  object with the field \<open>error\<close>, or a result.
\<close>

datatype 'a reply = NoReply | Failed string | Reply 'a




section \<open>The document\<close>

text \<open>
  The document is the list of the child nodes of the \<open>Document\<close> node; a node is a text
  node or an element with its child nodes. An element of the page carries a reference
  \<open>Some i\<close>, by which the closures of the content script hold it. The elements that the
  content script creates itself carry \<open>None\<close>: it keeps no reference to them once they are
  inserted, and finds them again by class only. A call on a reference that is not in the
  document leaves the document as it is.
\<close>

record inline_style =
  position :: string
  opacity :: string
  transition :: string
  display :: string

record elem =
  ref :: "nat option"
  tagName :: string
  classList :: "string list"
  attributes :: "(string \<times> string) list"
  style :: inline_style
  cssPosition :: string  \<comment> \<open>the \<open>position\<close> that the style sheets of the page give the element\<close>

datatype node = TextNode string | Element elem "node list"

definition empty_style :: inline_style where
  "empty_style = \<lparr>position = [], opacity = [], transition = [], display = []\<rparr>"

definition createElement :: "string \<Rightarrow> elem" where
  "createElement tg =
     \<lparr>ref = None, tagName = tg, classList = [], attributes = [], style = empty_style,
      cssPosition = []\<rparr>"

definition hasAttribute :: "elem \<Rightarrow> string \<Rightarrow> bool" where
  "hasAttribute e name = (map_of (attributes e) name \<noteq> None)"

definition getAttribute :: "elem \<Rightarrow> string \<Rightarrow> string option" where
  "getAttribute e name = map_of (attributes e) name"

definition setAttribute :: "string \<Rightarrow> string \<Rightarrow> elem \<Rightarrow> elem" where
  "setAttribute name v e = e\<lparr>attributes := AList.update name v (attributes e)\<rparr>"

definition removeAttribute :: "string \<Rightarrow> elem \<Rightarrow> elem" where
  "removeAttribute name e = e\<lparr>attributes := AList.delete name (attributes e)\<rparr>"

definition classList_add :: "string \<Rightarrow> elem \<Rightarrow> elem" where
  "classList_add c e =
     e\<lparr>classList := (if c \<in> set (classList e) then classList e else classList e @ [c])\<rparr>"

definition classList_remove :: "string \<Rightarrow> elem \<Rightarrow> elem" where
  "classList_remove c e = e\<lparr>classList := removeAll c (classList e)\<rparr>"

definition startsWith :: "string \<Rightarrow> string \<Rightarrow> bool" where
  "startsWith s p = (take (length p) s = p)"

definition is_ascii_whitespace :: "char \<Rightarrow> bool" where
  \<comment> \<open>the separators of the tokens of a \<open>class\<close> attribute: TAB, LF, FF, CR, SP\<close>
  "is_ascii_whitespace c =
     (let n = (of_char c :: nat) in n = 9 \<or> n = 10 \<or> n = 12 \<or> n = 13 \<or> n = 32)"

fun split_ws :: "string \<Rightarrow> string \<Rightarrow> string list" where
  "split_ws cur [] = (if cur = [] then [] else [cur])"
| "split_ws cur (x # xs) =
     (if is_ascii_whitespace x then (if cur = [] then split_ws [] xs else cur # split_ws [] xs)
      else split_ws (cur @ [x]) xs)"

definition class_tokens :: "string \<Rightarrow> string list" where
  \<comment> \<open>the \<open>classList\<close> after \<open>className = s\<close>: the tokens of \<open>s\<close>, each once, in the order of
     their first occurrence\<close>
  "class_tokens s = rev (remdups (rev (split_ws [] s)))"

fun join :: "string \<Rightarrow> string list \<Rightarrow> string" where
  "join sep [] = []"
| "join sep [x] = x"
| "join sep (x # y # ys) = x @ sep @ join sep (y # ys)"

fun textContent :: "node \<Rightarrow> string" where
  "textContent (TextNode t) = t"
| "textContent (Element e ks) = concat (map textContent ks)"

definition text_children :: "string \<Rightarrow> node list" where
  \<comment> \<open>the child nodes after \<open>textContent = t\<close>\<close>
  "text_children t = (if t = [] then [] else [TextNode t])"

fun subtree_elems :: "node \<Rightarrow> elem list" where
  "subtree_elems (TextNode t) = []"
| "subtree_elems (Element e ks) = e # concat (map subtree_elems ks)"

definition descendants :: "node list \<Rightarrow> elem list" where
  \<comment> \<open>the elements below an element with the child nodes \<open>ks\<close>, in document order\<close>
  "descendants ks = concat (map subtree_elems ks)"

definition querySelector :: "string list \<Rightarrow> node list \<Rightarrow> elem option" where
  \<comment> \<open>\<open>element.querySelector('.c1, .c2, ...')\<close> of an element with the child nodes \<open>ks\<close>\<close>
  "querySelector cs ks = find (\<lambda>d. list_ex (\<lambda>c. c \<in> set (classList d)) cs) (descendants ks)"

fun first_some :: "'a option list \<Rightarrow> 'a option" where
  "first_some [] = None"
| "first_some (Some x # xs) = Some x"
| "first_some (None # xs) = first_some xs"

text \<open>
  \<open>locate i doc\<close>: the element with the reference \<open>i\<close>, as its own data with its child
  nodes, and the data of its ancestors, the parent first.
\<close>

fun locate_node :: "nat \<Rightarrow> elem list \<Rightarrow> node \<Rightarrow> ((elem \<times> node list) \<times> elem list) option" where
  "locate_node i anc (TextNode t) = None"
| "locate_node i anc (Element e ks) =
     (if ref e = Some i then Some ((e, ks), anc)
      else first_some (map (locate_node i (e # anc)) ks))"

definition locate :: "nat \<Rightarrow> node list \<Rightarrow> ((elem \<times> node list) \<times> elem list) option" where
  "locate i d = first_some (map (locate_node i []) d)"

fun modify :: "nat \<Rightarrow> (node \<Rightarrow> node) \<Rightarrow> node \<Rightarrow> node" where
  "modify i f (TextNode t) = TextNode t"
| "modify i f (Element e ks) =
     (if ref e = Some i then f (Element e ks) else Element e (map (modify i f) ks))"

definition modify_doc :: "nat \<Rightarrow> (node \<Rightarrow> node) \<Rightarrow> node list \<Rightarrow> node list" where
  \<comment> \<open>a change of the element with the reference \<open>i\<close>\<close>
  "modify_doc i f d = map (modify i f) d"

fun map_elem :: "(elem \<Rightarrow> elem) \<Rightarrow> node \<Rightarrow> node" where
  "map_elem g (TextNode t) = TextNode t"
| "map_elem g (Element e ks) = Element (g e) ks"

fun set_children :: "node list \<Rightarrow> node \<Rightarrow> node" where
  "set_children ks' (TextNode t) = TextNode t"
| "set_children ks' (Element e ks) = Element e ks'"

definition closest :: "string \<Rightarrow> elem \<Rightarrow> elem list \<Rightarrow> bool" where
  \<comment> \<open>\<open>element.closest('nav')\<close>: the element itself or an ancestor has the tag\<close>
  "closest tg e anc = list_ex (\<lambda>a. tagName a = tg) (e # anc)"

definition getComputedStyle_position :: "elem \<Rightarrow> string" where
  \<comment> \<open>an inline \<open>position\<close> wins over the style sheets\<close>
  "getComputedStyle_position e =
     (if position (style e) \<noteq> [] then position (style e) else cssPosition e)"

section \<open>Content script: state\<close>

record settings =
  enabled :: bool
  autoRephrase :: bool
  showWarnings :: bool
  sensitivityLevel :: string

text \<open>
  The closure that one call of \<open>setupObserver\<close> creates: whether its observer is
  connected, \<open>pendingMutations\<close> (the references of the added elements of the page) and
  whether \<open>processingTimeout\<close> holds a timer.
\<close>

record watcher =
  connected :: bool
  pendingMutations :: "nat list"
  processingTimeout :: bool

text \<open>The timers that are set and have not fired, with what their callbacks close over.\<close>

datatype timer =
    AnalyzeTimer nat nat string  \<comment> \<open>\<open>analyzeElement\<close>: delay, element, text\<close>
  | ProcessMutations nat  \<comment> \<open>\<open>setupObserver\<close>: \<open>processMutations\<close> of the watcher, after 300\<close>
  | ProcessBatches "nat list list" nat nat  \<comment> \<open>\<open>processBatches\<close>: batches, index, delay\<close>
  | SecondaryScan  \<comment> \<open>\<open>analyzePageContent\<close>: the secondary elements, after 800\<close>
  | Reanalyze  \<comment> \<open>\<open>PAGE_CHANGED\<close>: \<open>analyzePageContent\<close>, after 300\<close>

text \<open>The messages that are sent and not answered, with what their callbacks close over.\<close>

datatype message =
    GET_SETTINGS
  | ANALYZE_TEXT nat string  \<comment> \<open>element, text\<close>
  | REPHRASE_TEXT nat analysis_result string string string
      \<comment> \<open>element, result, \<open>originalDisplay\<close>, \<open>originalTagName\<close>, \<open>originalClasses\<close>\<close>

text \<open>
  \<open>element.innerText\<close> is the text of an element as the browser renders it: white space
  collapsed as the style sheets say, hidden text left out. It is not a function of the
  nodes alone, and the content script only reads it. The state carries it as the function
  \<open>innerText\<close> that the browser provides, from an element, its child nodes and its
  ancestors to the rendered text; nothing is assumed of it.
\<close>

record state =
  doc :: "node list"
  innerText :: "elem \<Rightarrow> node list \<Rightarrow> elem list \<Rightarrow> string"
  extensionSettings :: settings
  observer :: "nat option"  \<comment> \<open>the variable \<open>observer\<close>: \<open>null\<close> or a watcher of \<open>watchers\<close>\<close>
  watchers :: "watcher list"
  analyzedTextCache :: "string \<rightharpoonup> analysis_result"
  timers :: "timer list"
  messages :: "message list"

definition update_element :: "nat \<Rightarrow> (node \<Rightarrow> node) \<Rightarrow> state \<Rightarrow> state" where
  "update_element i f s = s\<lparr>doc := modify_doc i f (doc s)\<rparr>"

definition IGNORE_TAGS :: "string list" where
  "IGNORE_TAGS = [''SCRIPT'', ''STYLE'', ''NOSCRIPT'', ''SVG'', ''CANVAS'', ''INPUT'', ''TEXTAREA'']"

definition IGNORE_CLASS_PATTERNS :: "(bool \<times> atom list) list" where
  \<comment> \<open>each pattern with its flag \<open>i\<close>\<close>
  "IGNORE_CLASS_PATTERNS =
     [(False, [Lit ''ai-guardian-'']), (True, [Lit ''code'']), (True, [Lit ''syntax'']),
      (True, [Lit ''pre''])]"

definition processed_attr :: string where
  "processed_attr = ''data-ai-guardian-processed''"

section \<open>Content script: \<open>shouldIgnoreElement\<close>\<close>

definition shouldIgnoreElement :: "elem \<Rightarrow> node list \<Rightarrow> elem list \<Rightarrow> bool" where
  \<comment> \<open>the element, its child nodes, its ancestors\<close>
  "shouldIgnoreElement e ks anc =
     (if list_ex (\<lambda>c. startsWith c ''ai-guardian-'') (classList e) then True
      else if (case anc of [] \<Rightarrow> False
               | parent # _ \<Rightarrow> list_ex (\<lambda>c. startsWith c ''ai-guardian-'') (classList parent))
        then True
      else if querySelector [''ai-guardian-rephrased'', ''ai-guardian-warning'',
                             ''ai-guardian-indicator'', ''ai-guardian-flagged''] ks \<noteq> None
        then True
      else if tagName e \<in> set IGNORE_TAGS then True
      else if list_ex (\<lambda>(i, pattern). list_ex (\<lambda>c. test i pattern c) (classList e))
                IGNORE_CLASS_PATTERNS
        then True
      else if (position (style e) = ''relative'' \<or> opacity (style e) \<noteq> [] \<or>
               transition (style e) \<noteq> []) \<and> hasAttribute e processed_attr
        then True
      else False)"

section \<open>Content script: the changes of the document\<close>

definition svg_alert_triangle :: node where
  "svg_alert_triangle =
     Element ((createElement ''svg'')
        \<lparr>classList := [''feather'', ''feather-alert-triangle''],
         attributes := [(''xmlns'', ''http://www.w3.org/2000/svg''), (''width'', ''16''),
           (''height'', ''16''), (''viewBox'', ''0 0 24 24''), (''fill'', ''none''),
           (''stroke'', ''currentColor''), (''stroke-width'', ''2''),
           (''stroke-linecap'', ''round''), (''stroke-linejoin'', ''round'')]\<rparr>)
       [Element ((createElement ''path'')
          \<lparr>attributes := [(''d'', ''M10.29 3.86L1.82 18a2 2 0 0 0 1.71 3h16.94a2 2 0 0 0 1.71-3L13.71 3.86a2 2 0 0 0-3.42 0z'')]\<rparr>) [],
        Element ((createElement ''line'')
          \<lparr>attributes := [(''x1'', ''12''), (''y1'', ''9''), (''x2'', ''12''), (''y2'', ''13'')]\<rparr>) [],
        Element ((createElement ''line'')
          \<lparr>attributes := [(''x1'', ''12''), (''y1'', ''17''), (''x2'', ''12.01''), (''y2'', ''17'')]\<rparr>) []]"

definition svg_edit :: node where
  "svg_edit =
     Element ((createElement ''svg'')
        \<lparr>classList := [''feather'', ''feather-edit-2''],
         attributes := [(''xmlns'', ''http://www.w3.org/2000/svg''), (''width'', ''14''),
           (''height'', ''14''), (''viewBox'', ''0 0 24 24''), (''fill'', ''none''),
           (''stroke'', ''currentColor''), (''stroke-width'', ''2''),
           (''stroke-linecap'', ''round''), (''stroke-linejoin'', ''round'')]\<rparr>)
       [Element ((createElement ''path'')
          \<lparr>attributes := [(''d'', ''M17 3a2.828 2.828 0 1 1 4 4L7.5 20.5 2 22l1.5-5.5L17 3z'')]\<rparr>) []]"

definition warningBadge :: "analysis_result \<Rightarrow> node" where
  "warningBadge result =
     Element ((createElement ''SPAN'')
        \<lparr>classList := class_tokens (''ai-guardian-warning ai-guardian-'' @ category result)\<rparr>)
       [svg_alert_triangle,
        Element ((createElement ''SPAN'')\<lparr>classList := class_tokens ''ai-guardian-tooltip''\<rparr>)
          (text_children (explanation result))]"

fun addWarningIndicator_node :: "analysis_result \<Rightarrow> node \<Rightarrow> node" where
  "addWarningIndicator_node result (TextNode t) = TextNode t"
| "addWarningIndicator_node result (Element e ks) =
     (if querySelector [''ai-guardian-warning''] ks \<noteq> None then Element e ks
      else Element
             (if getComputedStyle_position e = ''static''
              then e\<lparr>style := (style e)\<lparr>position := ''relative''\<rparr>\<rparr> else e)
             (ks @ [warningBadge result]))"

definition addWarningIndicator :: "nat \<Rightarrow> analysis_result \<Rightarrow> state \<Rightarrow> state" where
  "addWarningIndicator i result s = update_element i (addWarningIndicator_node result) s"

definition rephraseContent :: "nat \<Rightarrow> analysis_result \<Rightarrow> state \<Rightarrow> state" where
  "rephraseContent i result s =
     (case locate i (doc s) of
        None \<Rightarrow> s
      | Some ((e, ks), anc) \<Rightarrow>
          if ''ai-guardian-rephrased'' \<in> set (classList e) \<or>
             querySelector [''ai-guardian-rephrased''] ks \<noteq> None
          then update_element i (map_elem (classList_remove ''ai-guardian-processing'')) s
          else
            let e1 = classList_add ''ai-guardian-processing'' e;
                originalDisplay = display (style e1);
                originalTagName = toLowerCase (tagName e1);
                originalClasses =
                  join '' '' (filter (\<lambda>cls. \<not> startsWith cls ''ai-guardian-'') (classList e1));
                s1 = update_element i (map_elem (classList_add ''ai-guardian-processing'')) s
            in s1\<lparr>messages := messages s1 @
                  [REPHRASE_TEXT i result originalDisplay originalTagName originalClasses]\<rparr>)"

definition indicator :: node where
  "indicator =
     Element ((createElement ''SPAN'')
        \<lparr>classList := class_tokens ''ai-guardian-indicator'',
         attributes := [(''title'', ''This content was automatically rephrased'')]\<rparr>)
       [svg_edit]"

definition wrapper :: "analysis_result \<Rightarrow> string \<Rightarrow> string \<Rightarrow> rephrase_result \<Rightarrow> node" where
  "wrapper result originalDisplay originalClasses rephraseResult =
     Element ((createElement ''SPAN'')
        \<lparr>classList := class_tokens (''ai-guardian-rephrased '' @ originalClasses),
         attributes := [(''data-original-text'', result_text result)],
         style := (if originalDisplay \<noteq> [] then empty_style\<lparr>display := originalDisplay\<rparr>
                   else empty_style)\<rparr>)
       (text_children (rephrased rephraseResult) @ [indicator])"

text \<open>The callback of the message \<open>REPHRASE_TEXT\<close>.\<close>

definition rephraseCallback ::
  "nat \<Rightarrow> analysis_result \<Rightarrow> string \<Rightarrow> string \<Rightarrow> string \<Rightarrow> rephrase_result reply \<Rightarrow> state \<Rightarrow> state" where
  "rephraseCallback i result originalDisplay originalTagName originalClasses r s =
     (let s1 = (case r of
                  Reply rephraseResult \<Rightarrow>
                    update_element i
                      (set_children [wrapper result originalDisplay originalClasses rephraseResult]) s
                | _ \<Rightarrow> s)
      in update_element i (map_elem (classList_remove ''ai-guardian-processing'')) s1)"

definition handleAnalysisResult :: "nat \<Rightarrow> analysis_result \<Rightarrow> state \<Rightarrow> state" where
  "handleAnalysisResult i result s =
     (if \<not> isHarmful result \<or> category result = ''safe'' then s
      else
        let s1 = (if showWarnings (extensionSettings s) then addWarningIndicator i result s else s)
        in if autoRephrase (extensionSettings s1) then rephraseContent i result s1
           else update_element i (map_elem (classList_add ''ai-guardian-flagged'')) s1)"

section \<open>Content script: \<open>removeAllModifications\<close>\<close>

fun has_class :: "string \<Rightarrow> node \<Rightarrow> bool" where
  "has_class c (TextNode t) = False"
| "has_class c (Element e ks) = (c \<in> set (classList e))"

text \<open>\<open>document.querySelectorAll('.c').forEach(el => el.remove())\<close>\<close>

fun remove_class :: "string \<Rightarrow> node \<Rightarrow> node" where
  "remove_class c (TextNode t) = TextNode t"
| "remove_class c (Element e ks) =
     Element e (map (remove_class c) (filter (\<lambda>k. \<not> has_class c k) ks))"

definition remove_class_doc :: "string \<Rightarrow> node list \<Rightarrow> node list" where
  "remove_class_doc c d = map (remove_class c) (filter (\<lambda>k. \<not> has_class c k) d)"

text \<open>
  The loop over \<open>document.querySelectorAll('.ai-guardian-rephrased')\<close>, in document order.
  \<open>wrapper_original\<close> is the \<open>originalText\<close> of a node that passes the test
  \<open>originalText && parent\<close> when its parent is an element. Once a parent has received its
  text, its former child nodes are out of the document, and so is all that the loop does
  to them later; a parent takes the text of the first of its child nodes that has one.
\<close>

fun wrapper_original :: "node \<Rightarrow> string option" where
  "wrapper_original (TextNode t) = None"
| "wrapper_original (Element e ks) =
     (if ''ai-guardian-rephrased'' \<in> set (classList e)
      then (case getAttribute e ''data-original-text'' of
              None \<Rightarrow> None
            | Some originalText \<Rightarrow> if originalText \<noteq> [] then Some originalText else None)
      else None)"

fun restore_text :: "node \<Rightarrow> node" where
  "restore_text (TextNode t) = TextNode t"
| "restore_text (Element e ks) =
     (case first_some (map wrapper_original ks) of
        Some originalText \<Rightarrow> Element e (text_children originalText)
      | None \<Rightarrow> Element e (map restore_text ks))"

fun strip_processed :: "node \<Rightarrow> node" where
  "strip_processed (TextNode t) = TextNode t"
| "strip_processed (Element e ks) =
     Element (if hasAttribute e processed_attr
              then classList_remove ''ai-guardian-flagged'' (removeAttribute processed_attr e)
              else e)
       (map strip_processed ks)"

definition removeAllModifications :: "state \<Rightarrow> state" where
  "removeAllModifications s =
     s\<lparr>doc := map strip_processed
               (map restore_text
                 (remove_class_doc ''ai-guardian-indicator''
                   (remove_class_doc ''ai-guardian-warning'' (doc s))))\<rparr>"

section \<open>Content script: \<open>analyzeElement\<close>\<close>

definition ui_text_regex :: "atom list" where
  "ui_text_regex =
     [Group [''menu'', ''navigation'', ''search'', ''copyright'', ''terms'', ''privacy'',
             ''sign in'', ''login'', ''home'', ''about'']]"

definition quickCheck_regex :: "atom list" where
  "quickCheck_regex =
     [WordBoundary,
      Group [''fuck'', ''shit'', ''ass'', ''porn'', ''nude'', ''sex'', ''bomb'', ''explosive'',
             ''hack'', ''break in'', ''harm'', ''kill'', ''suicide''],
      WordBoundary]"

definition analyzeElement :: "nat \<Rightarrow> state \<Rightarrow> state" where
  "analyzeElement i s =
     (case locate i (doc s) of
        None \<Rightarrow> s
      | Some ((e, ks), anc) \<Rightarrow>
          if shouldIgnoreElement e ks anc then s
          else if hasAttribute e processed_attr then s
          else if innerText s e ks anc = [] then s
          else
            let txt = trim (innerText s e ks anc)
            in if length txt < 10 then s
               else
                 let s1 = update_element i (map_elem (setAttribute processed_attr ''true'')) s
                 in if length txt < 20 \<and>
                       (test True ui_text_regex txt \<or> tagName e = ''BUTTON'' \<or> tagName e = ''NAV'' \<or>
                        closest ''NAV'' e anc \<or> closest ''HEADER'' e anc \<or> closest ''FOOTER'' e anc)
                    then s1
                    else
                      (case analyzedTextCache s1 txt of
                         Some cachedResult \<Rightarrow> handleAnalysisResult i cachedResult s1
                       | None \<Rightarrow>
                           if \<not> test True quickCheck_regex txt \<and> length txt < 100 then s1
                           else
                             let s2 = (if autoRephrase (extensionSettings s1)
                                       then update_element i
                                              (map_elem (\<lambda>e. e\<lparr>style := (style e)
                                                 \<lparr>transition := ''opacity 0.2s ease'',
                                                  opacity := ''0.95''\<rparr>\<rparr>)) s1
                                       else s1);
                                 timeout = min (50 + length txt div 100) 200
                             in s2\<lparr>timers := timers s2 @ [AnalyzeTimer timeout i txt]\<rparr>))"

text \<open>The callback of the message \<open>ANALYZE_TEXT\<close>.\<close>

definition analysisCallback :: "nat \<Rightarrow> string \<Rightarrow> analysis_result reply \<Rightarrow> state \<Rightarrow> state" where
  "analysisCallback i txt r s =
     (let s1 = (if autoRephrase (extensionSettings s)
                then update_element i (map_elem (\<lambda>e. e\<lparr>style := (style e)\<lparr>opacity := ''1''\<rparr>\<rparr>)) s
                else s)
      in case r of
           Reply result \<Rightarrow>
             handleAnalysisResult i result
               (s1\<lparr>analyzedTextCache := (analyzedTextCache s1)(txt \<mapsto> result)\<rparr>)
         | _ \<Rightarrow> s1)"

section \<open>Content script: the scan of the page\<close>

datatype selector = Tag string | Class string | Id string | AttrEq string string

fun matches :: "selector \<Rightarrow> elem \<Rightarrow> bool" where
  "matches (Tag tg) e = (tagName e = tg)"
| "matches (Class c) e = (c \<in> set (classList e))"
| "matches (Id x) e = (getAttribute e ''id'' = Some x)"
| "matches (AttrEq a v) e = (getAttribute e a = Some v)"

fun walk :: "elem list \<Rightarrow> node \<Rightarrow> ((elem \<times> node list) \<times> elem list) list" where
  "walk anc (TextNode t) = []"
| "walk anc (Element e ks) = ((e, ks), anc) # concat (map (walk (e # anc)) ks)"

definition document_querySelectorAll ::
  "selector list \<Rightarrow> node list \<Rightarrow> ((elem \<times> node list) \<times> elem list) list" where
  "document_querySelectorAll sels d =
     filter (\<lambda>((e, ks), anc). list_ex (\<lambda>sel. matches sel e) sels) (concat (map (walk []) d))"

definition element_querySelectorAll ::
  "selector list \<Rightarrow> (elem \<times> node list) \<times> elem list \<Rightarrow> ((elem \<times> node list) \<times> elem list) list" where
  "element_querySelectorAll sels el =
     (case el of ((e, ks), anc) \<Rightarrow>
        filter (\<lambda>((e', ks'), anc'). list_ex (\<lambda>sel. matches sel e') sels)
          (concat (map (walk (e # anc)) ks)))"

definition document_body :: "node list \<Rightarrow> ((elem \<times> node list) \<times> elem list) option" where
  \<comment> \<open>\<open>document.body\<close>: the first \<open>body\<close> or \<open>frameset\<close> child of the document element\<close>
  "document_body d =
     (case find (\<lambda>n. case n of Element h hs \<Rightarrow> True | TextNode t \<Rightarrow> False) d of
        Some (Element h hs) \<Rightarrow>
          (case find (\<lambda>k. case k of Element b bs \<Rightarrow> tagName b = ''BODY'' \<or> tagName b = ''FRAMESET''
                                   | TextNode t \<Rightarrow> False) hs of
             Some (Element b bs) \<Rightarrow> Some ((b, bs), [h])
           | _ \<Rightarrow> None)
      | _ \<Rightarrow> None)"

definition mainContentSelectors :: "selector list" where
  "mainContentSelectors =
     [Tag ''MAIN'', Tag ''ARTICLE'', Class ''content'', Id ''content'', Class ''main-content'',
      Id ''main-content'', AttrEq ''role'' ''main'', Class ''post'', Class ''story'',
      Class ''entry'', Class ''page-content'', Class ''article-content'']"

definition textElementSelectors :: "selector list" where
  "textElementSelectors =
     [Tag ''P'', Tag ''H1'', Tag ''H2'', Tag ''H3'', Tag ''H4'', Tag ''H5'', Tag ''H6'', Tag ''LI'',
      Class ''text'', AttrEq ''role'' ''text'']"

function slices :: "nat \<Rightarrow> 'a list \<Rightarrow> 'a list list" where
  "slices n xs = (if xs = [] \<or> n = 0 then [] else take n xs # slices n (drop n xs))"
  by pat_completeness auto
termination
  by (relation "measure (\<lambda>(n, xs). length xs)") auto

definition processBatches :: "nat list list \<Rightarrow> nat \<Rightarrow> nat \<Rightarrow> state \<Rightarrow> state" where
  "processBatches batches index delayBetweenBatches s =
     (if index \<ge> length batches then s
      else
        let s1 = fold analyzeElement (batches ! index) s
        in s1\<lparr>timers := timers s1 @ [ProcessBatches batches (index + 1) delayBetweenBatches]\<rparr>)"

text \<open>
  The lists of elements are lists of references. An element without a reference is one
  that the content script has created; \<open>shouldIgnoreElement\<close> holds of every one of them
  that the selectors below match.
\<close>

definition analyzePageContent :: "state \<Rightarrow> state" where
  "analyzePageContent s =
     (let contentContainers =
            (case find (\<lambda>els. els \<noteq> [])
                    (map (\<lambda>sel. document_querySelectorAll [sel] (doc s)) mainContentSelectors) of
               Some els \<Rightarrow> Some els
             | None \<Rightarrow> map_option (\<lambda>body. [body]) (document_body (doc s)))
      in case contentContainers of
           None \<Rightarrow> s  \<comment> \<open>\<open>document.body\<close> is \<open>null\<close>: a \<open>TypeError\<close> ends the function\<close>
         | Some containers \<Rightarrow>
             let priorityElements =
                   List.map_filter (\<lambda>((e, ks), anc). ref e)
                     (filter (\<lambda>((e, ks), anc).
                          \<not> shouldIgnoreElement e ks anc \<and> innerText s e ks anc \<noteq> [] \<and>
                          length (trim (innerText s e ks anc)) > 15)
                        (concat (map (element_querySelectorAll textElementSelectors) containers)));
                 elementBatches = slices 5 priorityElements;
                 s1 = processBatches elementBatches 0 100 s
             in if length priorityElements < 10 then s1\<lparr>timers := timers s1 @ [SecondaryScan]\<rparr>
                else s1)"

definition secondary_regex :: "atom list" where
  "secondary_regex =
     [WordBoundary,
      Group [''kill'', ''bomb'', ''hack'', ''sex'', ''porn'', ''nude'', ''fuck'', ''shit'', ''ass''],
      WordBoundary]"

text \<open>The callback of the timer that \<open>analyzePageContent\<close> sets.\<close>

definition secondaryScan :: "state \<Rightarrow> state" where
  "secondaryScan s =
     (let potentialElements =
            filter (\<lambda>((e, ks), anc).
                if innerText s e ks anc = [] \<or> shouldIgnoreElement e ks anc then False
                else
                  let txt = trim (innerText s e ks anc)
                  in if length txt < 30 then False
                     else test True secondary_regex txt \<or> length txt > 100)
              (document_querySelectorAll [Tag ''DIV'', Tag ''SPAN'', Tag ''A''] (doc s));
          limitedElements = take 20 (List.map_filter (\<lambda>((e, ks), anc). ref e) potentialElements);
          secondaryBatches = slices 5 limitedElements
      in processBatches secondaryBatches 0 250 s)"

section \<open>Content script: the mutation observer\<close>

datatype 'a outcome = Returned 'a | Threw 'a

definition setupObserver :: "state \<Rightarrow> state outcome" where
  "setupObserver s =
     (let w = length (watchers s);
          s1 = s\<lparr>watchers := watchers s @
                   [\<lparr>connected = False, pendingMutations = [], processingTimeout = False\<rparr>],
                 observer := Some w\<rparr>
      in case document_body (doc s) of
           None \<Rightarrow> Threw s1  \<comment> \<open>\<open>observe(null, ...)\<close> throws\<close>
         | Some body \<Rightarrow>
             Returned (s1\<lparr>watchers := (watchers s1)[w := (watchers s1 ! w)\<lparr>connected := True\<rparr>]\<rparr>))"



definition processMutations :: "nat \<Rightarrow> state \<Rightarrow> state" where
  "processMutations w s =
     (let elementsToProcess =
            rev (remdups (rev (concat (map (\<lambda>i.
              case locate i (doc s) of
                None \<Rightarrow> [i]
              | Some el \<Rightarrow>
                  i # List.map_filter (\<lambda>((e, ks), anc). ref e)
                        (element_querySelectorAll
                           [Tag ''P'', Tag ''H1'', Tag ''H2'', Tag ''H3'', Tag ''H4'', Tag ''H5'',
                            Tag ''H6'', Tag ''LI''] el))
              (pendingMutations (watchers s ! w))))));
          s1 = fold analyzeElement elementsToProcess s
      in s1\<lparr>watchers := (watchers s1)[w := (watchers s1 ! w)
               \<lparr>pendingMutations := [], processingTimeout := False\<rparr>]\<rparr>)"

section \<open>Content script: \<open>initializeExtension\<close> and its listeners\<close>

definition initializeExtension ::
  "node list \<Rightarrow> (elem \<Rightarrow> node list \<Rightarrow> elem list \<Rightarrow> string) \<Rightarrow> state" where
  \<comment> \<open>on a page with the document \<open>d\<close> that the browser renders with \<open>r\<close>\<close>
  "initializeExtension d r =
     \<lparr>doc = d, innerText = r,
      extensionSettings = \<lparr>enabled = True, autoRephrase = True, showWarnings = True,
                           sensitivityLevel = ''medium''\<rparr>,
      observer = None, watchers = [], analyzedTextCache = Map.empty, timers = [],
      messages = [GET_SETTINGS]\<rparr>"

text \<open>The callback of the message \<open>GET_SETTINGS\<close>.\<close>

definition getSettingsCallback :: "settings option \<Rightarrow> state \<Rightarrow> state" where
  "getSettingsCallback response s =
     (case response of
        None \<Rightarrow> s
      | Some st \<Rightarrow>
          let s1 = s\<lparr>extensionSettings := st\<rparr>
          in if enabled st
             then (case setupObserver s1 of
                     Threw s2 \<Rightarrow> s2
                   | Returned s2 \<Rightarrow> analyzePageContent s2)
             else s1)"




section \<open>The event loop\<close>

definition without :: "nat \<Rightarrow> 'a list \<Rightarrow> 'a list" where
  "without k xs = take k xs @ drop (Suc k) xs"

text \<open>\<open>fire k\<close>: the timer \<open>k\<close> of the timers that are set fires.\<close>

definition fire :: "nat \<Rightarrow> state \<Rightarrow> state" where
  "fire k s =
     (if k < length (timers s) then
        let s1 = s\<lparr>timers := without k (timers s)\<rparr>
        in case timers s ! k of
             AnalyzeTimer timeout i txt \<Rightarrow> s1\<lparr>messages := messages s1 @ [ANALYZE_TEXT i txt]\<rparr>
           | ProcessMutations w \<Rightarrow> processMutations w s1
           | ProcessBatches batches index delayBetweenBatches \<Rightarrow>
               processBatches batches index delayBetweenBatches s1
           | SecondaryScan \<Rightarrow> secondaryScan s1
           | Reanalyze \<Rightarrow> analyzePageContent s1
      else s)"

datatype response =
    SettingsResponse "settings option"
  | AnalysisResponse "analysis_result reply"
  | RephraseResponse "rephrase_result reply"

text \<open>\<open>deliver k r\<close>: the message \<open>k\<close> of the messages that wait is answered with \<open>r\<close>.\<close>

definition deliver :: "nat \<Rightarrow> response \<Rightarrow> state \<Rightarrow> state" where
  "deliver k r s =
     (if k < length (messages s) then
        let s1 = s\<lparr>messages := without k (messages s)\<rparr>
        in case (messages s ! k, r) of
             (GET_SETTINGS, SettingsResponse st) \<Rightarrow> getSettingsCallback st s1
           | (ANALYZE_TEXT i txt, AnalysisResponse a) \<Rightarrow> analysisCallback i txt a s1
           | (REPHRASE_TEXT i result originalDisplay originalTagName originalClasses,
              RephraseResponse a) \<Rightarrow>
               rephraseCallback i result originalDisplay originalTagName originalClasses a s1
           | _ \<Rightarrow> s
      else s)"

section \<open>Notions used in the statements\<close>


definition short_text :: "nat \<Rightarrow> state \<Rightarrow> bool" where
  \<comment> \<open>the element is in the document and its trimmed text has fewer than 10 characters\<close>
  "short_text i s =
     (case locate i (doc s) of
        None \<Rightarrow> False
      | Some ((e, ks), anc) \<Rightarrow> length (trim (innerText s e ks anc)) < 10)"

fun elem_of :: "node \<Rightarrow> elem \<times> node list" where
  "elem_of (Element e ks) = (e, ks)"
| "elem_of (TextNode t) = (createElement [], [])"

definition keeps_ref :: "nat \<Rightarrow> (node \<Rightarrow> node) \<Rightarrow> bool" where
  \<comment> \<open>the change leaves an element with the reference \<open>i\<close> an element with that reference\<close>
  "keeps_ref i f =
     (\<forall>e ks. ref e = Some i \<longrightarrow> (\<exists>e' ks'. f (Element e ks) = Element e' ks' \<and> ref e' = Some i))"

definition is_processed :: "nat \<Rightarrow> state \<Rightarrow> bool" where
  \<comment> \<open>the element is in the document and carries the processed marker\<close>
  "is_processed i s =
     (case locate i (doc s) of
        None \<Rightarrow> False
      | Some ((e, ks), anc) \<Rightarrow> hasAttribute e processed_attr)"

definition rendered :: "elem \<Rightarrow> node list \<Rightarrow> elem list \<Rightarrow> string" where
  \<comment> \<open>the rendering of the examples: text in normal flow, nothing hidden; a run of white
     space shows as one space, and none shows at either end\<close>
  "rendered e ks anc = join '' '' (split_ws [] (textContent (Element e ks)))"

definition idle_state :: "node list \<Rightarrow> settings \<Rightarrow> state" where
  \<comment> \<open>a state of the content script with no observer, no timer and no message, on a page
     that the browser renders with \<open>rendered\<close>\<close>
  "idle_state d st =
     \<lparr>doc = d, innerText = rendered, extensionSettings = st, observer = None, watchers = [],
      analyzedTextCache = Map.empty, timers = [], messages = []\<rparr>"

definition page_element :: "nat \<Rightarrow> string \<Rightarrow> node list \<Rightarrow> node" where
  "page_element i tg ks = Element ((createElement tg)\<lparr>ref := Some i, cssPosition := ''static''\<rparr>) ks"

definition example_page :: "string \<Rightarrow> node list" where
  \<comment> \<open>a page with one paragraph, of the reference 1\<close>
  "example_page t =
     [page_element 100 ''HTML'' [page_element 101 ''BODY'' [page_element 1 ''P'' [TextNode t]]]]"

definition all_on :: settings where
  "all_on = \<lparr>enabled = True, autoRephrase = True, showWarnings = True, sensitivityLevel = ''medium''\<rparr>"

definition normalized_text :: "nat \<Rightarrow> state \<Rightarrow> string" where
  \<comment> \<open>the trimmed text of the element, the key of the cache\<close>
  "normalized_text i s =
     (case locate i (doc s) of
        None \<Rightarrow> []
      | Some ((e, ks), anc) \<Rightarrow> trim (innerText s e ks anc))"

definition eligible :: "nat \<Rightarrow> state \<Rightarrow> bool" where
  \<comment> \<open>the element is in the document, is not ignored, carries no processed marker and has
     a trimmed text of at least 10 characters\<close>
  "eligible i s =
     (case locate i (doc s) of
        None \<Rightarrow> False
      | Some ((e, ks), anc) \<Rightarrow>
          \<not> shouldIgnoreElement e ks anc \<and> \<not> hasAttribute e processed_attr \<and>
          10 \<le> length (trim (innerText s e ks anc)))"

definition ui_excluded :: "nat \<Rightarrow> state \<Rightarrow> bool" where
  \<comment> \<open>the rule for short texts of the user interface applies to the element\<close>
  "ui_excluded i s =
     (case locate i (doc s) of
        None \<Rightarrow> False
      | Some ((e, ks), anc) \<Rightarrow>
          length (trim (innerText s e ks anc)) < 20 \<and>
          (test True ui_text_regex (trim (innerText s e ks anc)) \<or> tagName e = ''BUTTON'' \<or>
           tagName e = ''NAV'' \<or> closest ''NAV'' e anc \<or> closest ''HEADER'' e anc \<or>
           closest ''FOOTER'' e anc))"


definition mark_processed :: "nat \<Rightarrow> state \<Rightarrow> state" where
  \<comment> \<open>\<open>element.setAttribute('data-ai-guardian-processed', 'true')\<close> and nothing else\<close>
  "mark_processed i s = update_element i (map_elem (setAttribute processed_attr ''true'')) s"

definition badges :: "nat \<Rightarrow> state \<Rightarrow> nat" where
  \<comment> \<open>the number of warning badges among the child nodes of the element\<close>
  "badges i s =
     (case locate i (doc s) of
        None \<Rightarrow> 0
      | Some ((e, ks), anc) \<Rightarrow> length (filter (has_class ''ai-guardian-warning'') ks))"

definition harmful_result :: analysis_result where
  \<comment> \<open>the verdict of the local fallback on a text with a harmful pattern\<close>
  "harmful_result = local_analysis ''this will kill people''"

definition example_page2 :: "string \<Rightarrow> node list" where
  \<comment> \<open>a page with two paragraphs of the same text, of the references 1 and 2\<close>
  "example_page2 t =
     [page_element 100 ''HTML''
       [page_element 101 ''BODY''
         [page_element 1 ''P'' [TextNode t], page_element 2 ''P'' [TextNode t]]]]"

definition restore_opacity :: "nat \<Rightarrow> state \<Rightarrow> state" where
  \<comment> \<open>the first statement of the callback of \<open>ANALYZE_TEXT\<close>\<close>
  "restore_opacity i s =
     (if autoRephrase (extensionSettings s)
      then update_element i (map_elem (\<lambda>e. e\<lparr>style := (style e)\<lparr>opacity := ''1''\<rparr>\<rparr>)) s
      else s)"

definition set_enabled :: "bool \<Rightarrow> state \<Rightarrow> state" where
  "set_enabled b s = s\<lparr>extensionSettings := (extensionSettings s)\<lparr>enabled := b\<rparr>\<rparr>"



definition watching_state :: "node list \<Rightarrow> settings \<Rightarrow> state" where
  \<comment> \<open>\<open>idle_state\<close> after \<open>setupObserver\<close>, on a page with a body\<close>
  "watching_state d st =
     (idle_state d st)
       \<lparr>observer := Some 0,
        watchers := [\<lparr>connected = True, pendingMutations = [], processingTimeout = False\<rparr>]\<rparr>"




fun clean :: "string \<Rightarrow> node \<Rightarrow> bool" where
  \<comment> \<open>no element of the subtree carries the class\<close>
  "clean c (TextNode t) = True"
| "clean c (Element e ks) = (c \<notin> set (classList e) \<and> list_all (clean c) ks)"







section \<open>Evaluation of characters\<close>

lemmas char_simps = is_word_char_def is_line_terminator_def is_white_space_def is_upper_case_def
  is_lower_case_def lower_char_def upper_char_def char_eq_def is_word_opt_def at_boundary_def
  is_ascii_whitespace_def

section \<open>The local rephrase fallback\<close>

lemma replace_word_no_match:
  "\<not> search True (word_regex w) p s \<Longrightarrow> replace_word w r p s = s"
  by (induction s arbitrary: p) auto

lemma foldl_replace_id:
  "\<forall>(w, r) \<in> set tbl. \<not> test True (word_regex w) txt \<Longrightarrow>
   foldl (\<lambda>rephrased (word, replacement). replace_word word replacement None rephrased) txt tbl = txt"
  by (induction tbl) (auto simp: test_def replace_word_no_match)

text \<open>
  C9. For every text, \<open>localRephrase\<close> with the category \<open>harmful\<close> returns the fixed safety
  notice, whatever the substitutions made of the text. With any other category it returns
  the text after the substitutions of the table, each of a whole word: a text in which no
  word of the table occurs as a whole word comes back as it is.
\<close>

theorem localRephrase_policy:
  "localRephrase txt ''harmful'' = safety_notice \<and>
   (cat \<noteq> ''harmful'' \<longrightarrow> localRephrase txt cat = apply_replacements txt) \<and>
   (cat \<noteq> ''harmful'' \<and> (\<forall>(w, r) \<in> set replacements. \<not> test True (word_regex w) txt)
      \<longrightarrow> localRephrase txt cat = txt)"
  by (simp add: localRephrase_def apply_replacements_def foldl_replace_id)

theorem localRephrase_policy_witness:
  "localRephrase ''a classic bombshell'' ''offensive'' = ''a classic bombshell'' \<and>
   localRephrase ''Kick his ASS in class, you shit.'' ''offensive'' =
     ''Kick his *** in class, you ****.'' \<and>
   localRephrase ''Kick his ASS in class, you shit.'' ''harmful'' = safety_notice"
proof -
  have h: "\<forall>(w, r) \<in> set replacements. \<not> test True (word_regex w) ''a classic bombshell''"
    by (simp add: replacements_def test_def word_regex_def char_simps)
  have a: "apply_replacements ''Kick his ASS in class, you shit.'' = ''Kick his *** in class, you ****.''"
    by (simp add: apply_replacements_def replacements_def word_regex_def char_simps)
  have ne: "''offensive'' \<noteq> ''harmful''" by simp
  have b: "localRephrase ''a classic bombshell'' ''offensive'' = ''a classic bombshell''"
    using localRephrase_policy [of "''a classic bombshell''" "''offensive''"] ne h by blast
  have c: "localRephrase ''Kick his ASS in class, you shit.'' ''offensive'' =
           apply_replacements ''Kick his ASS in class, you shit.''"
    using localRephrase_policy [of "''Kick his ASS in class, you shit.''" "''offensive''"] ne by blast
  have d: "localRephrase ''Kick his ASS in class, you shit.'' ''harmful'' = safety_notice"
    using localRephrase_policy [of "''Kick his ASS in class, you shit.''" "''offensive''"] by blast
  show ?thesis using a b c d by simp
qed

section \<open>The boundary to the remote service\<close>



section \<open>Locating and changing an element\<close>

lemma first_some_map_option:
  "first_some (map (\<lambda>x. map_option g (h x)) xs) = map_option g (first_some (map h xs))"
proof (induction xs)
  case Nil then show ?case by simp
next
  case (Cons x xs) then show ?case by (cases "h x") auto
qed

lemma first_some_cong:
  "(\<And>x. x \<in> set xs \<Longrightarrow> f x = g x) \<Longrightarrow> first_some (map f xs) = first_some (map g xs)"
  by (induction xs) (auto intro: arg_cong2 [where f = "(#)"] cong: map_cong)

lemma locate_node_modify:
  assumes "keeps_ref i f"
  shows "locate_node i anc (modify i f n) =
         map_option (\<lambda>(el, a). (elem_of (f (Element (fst el) (snd el))), a)) (locate_node i anc n)"
proof (induction n arbitrary: anc)
  case (TextNode t)
  then show ?case by simp
next
  case (Element e ks)
  show ?case
  proof (cases "ref e = Some i")
    case True
    with assms obtain e' ks' where "f (Element e ks) = Element e' ks'" "ref e' = Some i"
      unfolding keeps_ref_def by blast
    with True show ?thesis by simp
  next
    case False
    have "first_some (map (locate_node i (e # anc)) (map (modify i f) ks)) =
          first_some (map (\<lambda>k. map_option (\<lambda>(el, a). (elem_of (f (Element (fst el) (snd el))), a))
                                  (locate_node i (e # anc) k)) ks)"
      unfolding map_map comp_def by (rule first_some_cong) (simp add: Element.IH)
    with False show ?thesis by (simp add: first_some_map_option)
  qed
qed

lemma locate_modify_doc:
  assumes "keeps_ref i f"
  shows "locate i (modify_doc i f d) =
         map_option (\<lambda>(el, a). (elem_of (f (Element (fst el) (snd el))), a)) (locate i d)"
  unfolding locate_def modify_doc_def map_map comp_def
  by (simp add: locate_node_modify [OF assms] first_some_map_option)

text \<open>
  C6. An element whose trimmed text has fewer than 10 characters: \<open>analyzeElement\<close> leaves
  the whole state as it is, so the document is not changed and no timer and no message
  (no remote call) is added.
\<close>

theorem short_text_untouched: "short_text i s \<Longrightarrow> analyzeElement i s = s"
  by (auto simp: short_text_def analyzeElement_def Let_def split: option.splits)

section \<open>Elements with short text\<close>

lemmas page_simps = example_page_def page_element_def createElement_def empty_style_def
  idle_state_def all_on_def locate_def

theorem short_text_untouched_witness:
  "short_text 1 (idle_state (example_page '' kill him '') all_on) \<and>
   analyzeElement 1 (idle_state (example_page '' kill him '') all_on) =
     idle_state (example_page '' kill him '') all_on"
proof -
  have h: "short_text 1 (idle_state (example_page '' kill him '') all_on)"
    by (simp add: short_text_def page_simps rendered_def trim_def char_simps)
  show ?thesis using h short_text_untouched [OF h] by simp
qed

section \<open>The processed marker\<close>

lemma keeps_ref_map_elem: "(\<And>e. ref (g e) = ref e) \<Longrightarrow> keeps_ref i (map_elem g)"
  by (simp add: keeps_ref_def)

lemma keeps_ref_addWarning: "keeps_ref i (addWarningIndicator_node r)"
  by (simp add: keeps_ref_def)


lemma is_processed_update:
  assumes "keeps_ref i f"
    and "\<And>e ks. hasAttribute e processed_attr \<Longrightarrow> hasAttribute (fst (elem_of (f (Element e ks)))) processed_attr"
    and "is_processed i s"
  shows "is_processed i (update_element i f s)"
proof -
  from assms(3) obtain e ks anc where loc: "locate i (doc s) = Some ((e, ks), anc)"
    and h: "hasAttribute e processed_attr"
    by (auto simp: is_processed_def split: option.splits)
  obtain e' ks' where f: "elem_of (f (Element e ks)) = (e', ks')"
    by (cases "elem_of (f (Element e ks))")
  from assms(2) [OF h, of ks] f have "hasAttribute e' processed_attr" by simp
  with loc f show ?thesis
    by (simp add: is_processed_def update_element_def locate_modify_doc [OF assms(1)])
qed

lemma is_processed_map_elem:
  assumes "\<And>e. ref (g e) = ref e" "\<And>e. attributes (g e) = attributes e" "is_processed i s"
  shows "is_processed i (update_element i (map_elem g) s)"
  by (rule is_processed_update [OF keeps_ref_map_elem]) (simp_all add: assms hasAttribute_def)

lemma is_processed_addWarning:
  "is_processed i s \<Longrightarrow> is_processed i (addWarningIndicator i r s)"
  unfolding addWarningIndicator_def
  by (rule is_processed_update [OF keeps_ref_addWarning]) (simp_all add: hasAttribute_def)

lemma is_processed_fields [simp]:
  "is_processed i (s\<lparr>timers := t\<rparr>) = is_processed i s"
  "is_processed i (s\<lparr>messages := m\<rparr>) = is_processed i s"
  "is_processed i (s\<lparr>analyzedTextCache := c\<rparr>) = is_processed i s"
  by (simp_all add: is_processed_def)

lemma is_processed_rephraseContent:
  "is_processed i s \<Longrightarrow> is_processed i (rephraseContent i r s)"
  by (auto simp: rephraseContent_def Let_def classList_add_def classList_remove_def
      intro!: is_processed_map_elem split: option.splits)

lemma is_processed_handle:
  "is_processed i s \<Longrightarrow> is_processed i (handleAnalysisResult i r s)"
  by (auto simp: handleAnalysisResult_def Let_def classList_add_def
      intro!: is_processed_map_elem is_processed_rephraseContent is_processed_addWarning)

lemma is_processed_mark:
  "locate i (doc s) = Some el \<Longrightarrow> is_processed i (mark_processed i s)"
  by (cases el)
     (auto simp: is_processed_def mark_processed_def update_element_def setAttribute_def
       hasAttribute_def update_conv' locate_modify_doc [OF keeps_ref_map_elem])

lemma analyzeElement_processed: "is_processed i s \<Longrightarrow> analyzeElement i s = s"
  by (auto simp: is_processed_def analyzeElement_def split: option.splits)

lemma analyzeElement_eligible:
  assumes "eligible i s"
  shows "analyzeElement i s =
     (if ui_excluded i s then mark_processed i s
      else case analyzedTextCache s (normalized_text i s) of
             Some cachedResult \<Rightarrow> handleAnalysisResult i cachedResult (mark_processed i s)
           | None \<Rightarrow>
               if \<not> test True quickCheck_regex (normalized_text i s) \<and> length (normalized_text i s) < 100
               then mark_processed i s
               else (if autoRephrase (extensionSettings s)
                     then update_element i
                            (map_elem (\<lambda>e. e\<lparr>style := (style e)
                               \<lparr>transition := ''opacity 0.2s ease'', opacity := ''0.95''\<rparr>\<rparr>))
                            (mark_processed i s)
                     else mark_processed i s)
                    \<lparr>timers := timers s @
                       [AnalyzeTimer (min (50 + length (normalized_text i s) div 100) 200) i
                          (normalized_text i s)]\<rparr>)"
proof -
  from assms obtain e ks anc where loc: "locate i (doc s) = Some ((e, ks), anc)"
    by (auto simp: eligible_def split: option.splits)
  have ne: "innerText s e ks anc \<noteq> []"
    using assms loc by (auto simp: eligible_def trim_def)
  show ?thesis
    using assms loc ne
    by (auto simp: eligible_def analyzeElement_def ui_excluded_def normalized_text_def Let_def
        mark_processed_def update_element_def split: option.splits)
qed

lemma is_processed_analyzeElement:
  assumes "eligible i s"
  shows "is_processed i (analyzeElement i s)"
proof -
  from assms obtain el where loc: "locate i (doc s) = Some el"
    by (auto simp: eligible_def split: option.splits)
  have m: "is_processed i (mark_processed i s)" by (rule is_processed_mark [OF loc])
  show ?thesis
    unfolding analyzeElement_eligible [OF assms]
    using m
    by (auto split: option.splits intro!: is_processed_handle is_processed_map_elem)
qed


lemmas eval_simps = page_simps char_simps rendered_def trim_def test_def shouldIgnoreElement_def
  querySelector_def descendants_def startsWith_def IGNORE_TAGS_def IGNORE_CLASS_PATTERNS_def
  hasAttribute_def processed_attr_def closest_def


section \<open>Warning badges\<close>

lemma modify_modify:
  assumes "keeps_ref i g"
  shows "modify i f (modify i g n) = modify i (f \<circ> g) n"
proof (induction n)
  case (TextNode t)
  then show ?case by simp
next
  case (Element e ks)
  show ?case
  proof (cases "ref e = Some i")
    case True
    with assms obtain e' ks' where "g (Element e ks) = Element e' ks'" "ref e' = Some i"
      unfolding keeps_ref_def by blast
    with True show ?thesis by simp
  next
    case False
    then show ?thesis by (simp add: Element.IH)
  qed
qed

lemma modify_cong:
  "(\<And>e ks. ref e = Some i \<Longrightarrow> f (Element e ks) = g (Element e ks)) \<Longrightarrow> modify i f n = modify i g n"
  by (induction n) auto

lemma set_class_tokens [simp]: "set (class_tokens s) = set (split_ws [] s)"
  by (simp add: class_tokens_def)

lemma warning_in_badge:
  "''ai-guardian-warning'' \<in> set (class_tokens (''ai-guardian-warning ai-guardian-'' @ c))"
  by (simp add: is_ascii_whitespace_def)

lemma querySelector_badge:
  "querySelector [''ai-guardian-warning''] (ks @ [warningBadge r]) \<noteq> None"
proof -
  let ?b = "(createElement ''SPAN'')
     \<lparr>classList := class_tokens (''ai-guardian-warning ai-guardian-'' @ category r)\<rparr>"
  have "?b \<in> set (descendants (ks @ [warningBadge r]))"
    by (simp add: descendants_def warningBadge_def)
  moreover have "list_ex (\<lambda>c. c \<in> set (classList ?b)) [''ai-guardian-warning'']"
    using warning_in_badge [of "category r"] by simp
  ultimately show ?thesis
    unfolding querySelector_def find_None_iff by blast
qed

lemma addWarningIndicator_node_idem:
  "addWarningIndicator_node r2 (addWarningIndicator_node r1 n) = addWarningIndicator_node r1 n"
  by (cases n) (simp_all add: querySelector_badge)

lemma child_is_descendant:
  "k \<in> set ks \<Longrightarrow> has_class c k \<Longrightarrow> querySelector [c] ks \<noteq> None"
proof (cases k)
  case (TextNode t)
  assume "has_class c k"
  with TextNode show ?thesis by simp
next
  case (Element e ks')
  assume k: "k \<in> set ks" and c: "has_class c k"
  from k Element have "e \<in> set (descendants ks)"
    by (force simp: descendants_def)
  moreover from c Element have "list_ex (\<lambda>c. c \<in> set (classList e)) [c]" by simp
  ultimately show ?thesis
    unfolding querySelector_def find_None_iff by blast
qed

lemma no_badge_children:
  "querySelector [c] ks = None \<Longrightarrow> filter (has_class c) ks = []"
  using child_is_descendant [of _ ks c] by (auto simp: filter_empty_conv)

lemma has_class_badge: "has_class ''ai-guardian-warning'' (warningBadge r)"
  using warning_in_badge [of "category r"] by (simp add: warningBadge_def)

lemma analyzeElement_not_eligible: "\<not> eligible i s \<Longrightarrow> analyzeElement i s = s"
  by (auto simp: eligible_def analyzeElement_def Let_def trim_def split: option.splits)

lemma analyzeElement_idem: "analyzeElement i (analyzeElement i s) = analyzeElement i s"
proof (cases "eligible i s")
  case True
  then show ?thesis by (rule analyzeElement_processed [OF is_processed_analyzeElement])
next
  case False
  then show ?thesis by (simp add: analyzeElement_not_eligible)
qed

text \<open>
  C5. A second \<open>addWarningIndicator\<close> on an element changes nothing, whatever the two
  results are: the badge of the first is found and the insertion is skipped. An element
  with at most one badge among its child nodes has at most one after
  \<open>addWarningIndicator\<close>. A second \<open>analyzeElement\<close> on an element, before any callback
  has run, changes nothing either, so that the two discoveries of an element in one cycle
  lead to one analysis.
\<close>

theorem at_most_one_badge:
  "addWarningIndicator i r2 (addWarningIndicator i r1 s) = addWarningIndicator i r1 s \<and>
   (badges i s \<le> 1 \<longrightarrow> badges i (addWarningIndicator i r1 s) \<le> 1) \<and>
   analyzeElement i (analyzeElement i s) = analyzeElement i s"
proof -
  have a: "addWarningIndicator i r2 (addWarningIndicator i r1 s) = addWarningIndicator i r1 s"
    by (simp add: addWarningIndicator_def update_element_def modify_doc_def
        modify_modify [OF keeps_ref_addWarning] comp_def addWarningIndicator_node_idem)
  have b: "badges i (addWarningIndicator i r1 s) \<le> 1" if "badges i s \<le> 1"
  proof (cases "locate i (doc s)")
    case None
    then show ?thesis
      by (simp add: badges_def addWarningIndicator_def update_element_def
          locate_modify_doc [OF keeps_ref_addWarning])
  next
    case (Some el)
    obtain e ks anc where el: "el = ((e, ks), anc)" by (metis surj_pair)
    show ?thesis
      using that Some el
      by (auto simp: badges_def addWarningIndicator_def update_element_def
          locate_modify_doc [OF keeps_ref_addWarning] no_badge_children has_class_badge)
  qed
  show ?thesis using a b analyzeElement_idem by blast
qed

lemma harmful_result_eval:
  "harmful_result =
     \<lparr>isHarmful = True, category = ''harmful'', confidence = 0.7,
      explanation = ''This content may contain harmful material (detected locally)'',
      result_text = ''this will kill people''\<rparr>"
  by (simp add: harmful_result_def local_analysis_def calculateLocalToxicityScore_def patterns_def
      toLowerCase_def test_def char_simps)

theorem at_most_one_badge_witness:
  "badges 1 (idle_state (example_page ''this will kill people'') all_on) \<le> 1 \<and>
   badges 1 (addWarningIndicator 1 harmful_result
               (idle_state (example_page ''this will kill people'') all_on)) = 1 \<and>
   badges 1 (addWarningIndicator 1 harmful_result
              (addWarningIndicator 1 harmful_result
                (idle_state (example_page ''this will kill people'') all_on))) = 1"
proof -
  let ?s = "idle_state (example_page ''this will kill people'') all_on"
  have h: "badges 1 ?s \<le> 1" by (simp add: badges_def page_simps)
  have a: "badges 1 (addWarningIndicator 1 harmful_result ?s) = 1"
    by (simp add: badges_def addWarningIndicator_def update_element_def modify_doc_def
        harmful_result_eval warningBadge_def getComputedStyle_position_def querySelector_def
        descendants_def class_tokens_def is_ascii_whitespace_def page_simps)
  have b: "addWarningIndicator 1 harmful_result (addWarningIndicator 1 harmful_result ?s) =
           addWarningIndicator 1 harmful_result ?s"
    using at_most_one_badge [of 1 harmful_result harmful_result ?s] by blast
  show ?thesis using h a b by simp
qed

section \<open>The cache\<close>

lemma handleAnalysisResult_fields:
  "timers (handleAnalysisResult i r s) = timers s"
  "analyzedTextCache (handleAnalysisResult i r s) = analyzedTextCache s"
  "extensionSettings (handleAnalysisResult i r s) = extensionSettings s"
  by (auto simp: handleAnalysisResult_def rephraseContent_def addWarningIndicator_def
      update_element_def Let_def split: option.splits)

text \<open>
  C8, as the code has it. When the reply \<open>r\<close> to the analysis of a first element has been
  handled, its text is in the cache with \<open>r\<close>. A second element with the same trimmed text
  that is analysed after that (eligible, not excluded as text of the user interface) hits
  the cache: it sets no timer, so no remote call follows, and \<open>handleAnalysisResult\<close> gets
  the same \<open>r\<close> that the callback handed to it for the first element.
\<close>

theorem cache_hit_after_reply:
  assumes "s1 = analysisCallback j txt (Reply r) s0"
    and "eligible i s1" and "\<not> ui_excluded i s1" and "normalized_text i s1 = txt"
  shows "analyzedTextCache s1 txt = Some r \<and>
         analyzeElement i s1 = handleAnalysisResult i r (mark_processed i s1) \<and>
         timers (analyzeElement i s1) = timers s1 \<and>
         s1 = handleAnalysisResult j r
                ((restore_opacity j s0)\<lparr>analyzedTextCache := (analyzedTextCache s0)(txt \<mapsto> r)\<rparr>)"
proof -
  have c: "analyzedTextCache s1 txt = Some r"
    unfolding assms(1) by (simp add: analysisCallback_def Let_def handleAnalysisResult_fields)
  have a: "analyzeElement i s1 = handleAnalysisResult i r (mark_processed i s1)"
    unfolding analyzeElement_eligible [OF assms(2)] using assms(3,4) c by simp
  have t: "timers (analyzeElement i s1) = timers s1"
    unfolding a by (simp add: handleAnalysisResult_fields mark_processed_def update_element_def)
  have e: "s1 = handleAnalysisResult j r
                 ((restore_opacity j s0)\<lparr>analyzedTextCache := (analyzedTextCache s0)(txt \<mapsto> r)\<rparr>)"
    unfolding assms(1)
    by (simp add: analysisCallback_def restore_opacity_def update_element_def Let_def)
  show ?thesis using c a t e by blast
qed

lemmas dom_simps = badges_def addWarningIndicator_def update_element_def modify_doc_def
  warningBadge_def getComputedStyle_position_def querySelector_def descendants_def
  class_tokens_def svg_alert_triangle_def svg_edit_def text_children_def indicator_def wrapper_def

lemmas pipeline_simps = analyzeElement_def handleAnalysisResult_def rephraseContent_def
  analysisCallback_def rephraseCallback_def fire_def deliver_def without_def Let_def
  classList_add_def classList_remove_def setAttribute_def toLowerCase_def
  quickCheck_regex_def ui_text_regex_def

lemmas scan_simps = analyzePageContent_def processBatches_def document_querySelectorAll_def
  element_querySelectorAll_def document_body_def mainContentSelectors_def textElementSelectors_def
  List.map_filter_def getAttribute_def

text \<open>
  C8 as stated fails: two paragraphs with the same text that the scan finds in one batch
  are both analysed before any reply can arrive; the cache is empty for both, and each
  sends its own message \<open>ANALYZE_TEXT\<close>.
\<close>

theorem two_calls_in_one_batch:
  "normalized_text 1 (idle_state (example_page2 ''this will kill people'') all_on) =
     normalized_text 2 (idle_state (example_page2 ''this will kill people'') all_on) \<and>
   messages (fire 0 (fire 0 (analyzePageContent
       (idle_state (example_page2 ''this will kill people'') all_on)))) =
     [ANALYZE_TEXT 1 ''this will kill people'', ANALYZE_TEXT 2 ''this will kill people'']"
  by (simp add: normalized_text_def example_page2_def scan_simps pipeline_simps eval_simps dom_simps)

theorem cache_hit_after_reply_witness:
  "eligible 2 (analysisCallback 1 ''this will kill people'' (Reply harmful_result)
      (analyzeElement 1 (idle_state (example_page2 ''this will kill people'') all_on))) \<and>
   normalized_text 2 (analysisCallback 1 ''this will kill people'' (Reply harmful_result)
      (analyzeElement 1 (idle_state (example_page2 ''this will kill people'') all_on))) =
     ''this will kill people'' \<and>
   timers (analyzeElement 2 (analysisCallback 1 ''this will kill people'' (Reply harmful_result)
      (analyzeElement 1 (idle_state (example_page2 ''this will kill people'') all_on)))) =
   timers (analysisCallback 1 ''this will kill people'' (Reply harmful_result)
      (analyzeElement 1 (idle_state (example_page2 ''this will kill people'') all_on)))"
proof -
  let ?s0 = "analyzeElement 1 (idle_state (example_page2 ''this will kill people'') all_on)"
  let ?s1 = "analysisCallback 1 ''this will kill people'' (Reply harmful_result) ?s0"
  have d: "doc ?s1 =
     [page_element 100 ''HTML''
       [page_element 101 ''BODY''
         [Element ((createElement ''P'')
             \<lparr>ref := Some 1, cssPosition := ''static'',
              classList := [''ai-guardian-processing''],
              attributes := [(''data-ai-guardian-processed'', ''true'')],
              style := \<lparr>position = ''relative'', opacity = ''1'',
                        transition = ''opacity 0.2s ease'', display = []\<rparr>\<rparr>)
            [TextNode ''this will kill people'', warningBadge harmful_result],
          page_element 2 ''P'' [TextNode ''this will kill people'']]]]"
    by (simp add: example_page2_def pipeline_simps eval_simps dom_simps harmful_result_eval)
  have r: "innerText ?s1 = rendered"
    by (simp add: example_page2_def pipeline_simps eval_simps dom_simps harmful_result_eval)
  have e: "eligible 2 ?s1"
    unfolding eligible_def d r by (simp add: eval_simps dom_simps)
  have u: "\<not> ui_excluded 2 ?s1"
    unfolding ui_excluded_def d r by (simp add: ui_text_regex_def eval_simps dom_simps)
  have n: "normalized_text 2 ?s1 = ''this will kill people''"
    unfolding normalized_text_def d r by (simp add: eval_simps dom_simps)
  have t: "timers (analyzeElement 2 ?s1) = timers ?s1"
    using cache_hit_after_reply [OF refl e u n] by blast
  show ?thesis using e n t by blast
qed

section \<open>A reply that arrives after the pipeline is disabled\<close>

lemma set_enabled_fields [simp]:
  "doc (set_enabled b s) = doc s"
  "messages (set_enabled b s) = messages s"
  "timers (set_enabled b s) = timers s"
  "analyzedTextCache (set_enabled b s) = analyzedTextCache s"
  "autoRephrase (extensionSettings (set_enabled b s)) = autoRephrase (extensionSettings s)"
  "showWarnings (extensionSettings (set_enabled b s)) = showWarnings (extensionSettings s)"
  by (simp_all add: set_enabled_def)












section \<open>The reversal is idempotent\<close>






lemma has_class_remove_class [simp]: "has_class c (remove_class c' n) = has_class c n"
  by (cases n) auto



lemma clean_text_children [simp]: "list_all (clean c) (text_children t)"
  by (simp add: text_children_def)




lemma wrapper_original_restore [simp]: "wrapper_original (restore_text k) = wrapper_original k"
  by (cases k) (auto split: option.splits)

lemma wrapper_original_text_children [simp]:
  "first_some (map wrapper_original (text_children t)) = None"
  by (simp add: text_children_def)

lemma restore_text_text_children [simp]: "map restore_text (text_children t) = text_children t"
  by (simp add: text_children_def)


lemma wrapper_original_strip [simp]: "wrapper_original (strip_processed k) = wrapper_original k"
  by (cases k)
     (auto simp: classList_remove_def removeAttribute_def getAttribute_def delete_conv'
       processed_attr_def)

lemma strip_text_children [simp]: "map strip_processed (text_children t) = text_children t"
  by (simp add: text_children_def)




section \<open>Teardown of the observer\<close>

lemma removeAllModifications_fields [simp]:
  "timers (removeAllModifications s) = timers s"
  "messages (removeAllModifications s) = messages s"
  "observer (removeAllModifications s) = observer s"
  "watchers (removeAllModifications s) = watchers s"
  "extensionSettings (removeAllModifications s) = extensionSettings s"
  "analyzedTextCache (removeAllModifications s) = analyzedTextCache s"
  by (simp_all add: removeAllModifications_def)



lemma setupObserver_example:
  "setupObserver (idle_state (example_page t) st) = Returned (watching_state (example_page t) st)"
  by (simp add: setupObserver_def watching_state_def document_body_def Let_def page_simps)




section \<open>Rephrasing and reversal\<close>


lemma split_ws_space:
  "cur \<noteq> [] \<Longrightarrow> split_ws cur (CHR '' '' # rest) = cur # split_ws [] rest"
  by (simp add: is_ascii_whitespace_def)









lemma clean_modify:
  assumes "\<And>e ks. ref e = Some i \<Longrightarrow> clean c (Element e ks) \<Longrightarrow> clean c (F (Element e ks))"
    and "clean c n"
  shows "clean c (modify i F n)"
  using assms(2)
  by (induction n) (auto simp: list_all_iff assms(1))











lemma remove_class_text_children [simp]:
  "map (remove_class c) (text_children t) = text_children t"
  "filter (\<lambda>k. \<not> has_class c k) (text_children t) = text_children t"
  by (simp_all add: text_children_def)













end
